theory Spec2Isabelle
  imports Main "HOL-Library.Sublist"
begin

section \<open>Data model of \<^verbatim>\<open>src/index.tsx\<close>\<close>

text \<open>
  The flat record the service returns (interface \<^verbatim>\<open>RailwayService\<close>, lines 11-20).
\<close>

record RailwayService =
  projectId :: string
  projectName :: string
  serviceId :: string
  serviceName :: string
  deploymentId :: string
  status :: string
  staticUrl :: string
  deploymentStopped :: bool

text \<open>
  The decoded GraphQL response (interface \<^verbatim>\<open>GraphQLResponse\<close>, lines 23-65). The
  \<^verbatim>\<open>{ node: ... }\<close> wrapper of every edge is folded into the node itself. A field is
  an \<open>option\<close> where the interface marks it optional or where the code tests it for
  absence (\<^verbatim>\<open>!project.services\<close>, \<^verbatim>\<open>!service.serviceInstances.edges\<close>,
  \<^verbatim>\<open>?? false\<close>, \<^verbatim>\<open>?? null\<close>); \<open>None\<close> stands for both \<^verbatim>\<open>undefined\<close> and \<^verbatim>\<open>null\<close>,
  which the code never tells apart.
\<close>

record Deployment =
  dep_id :: string
  dep_status :: string
  dep_staticUrl :: string
  dep_deploymentStopped :: bool

record InstanceNode =
  latestDeployment :: "Deployment option"

record InstanceConnection =
  instance_edges :: "InstanceNode list option"

record ServiceNode =
  service_id :: string
  service_name :: string
  serviceInstances :: "InstanceConnection option"

record ServiceConnection =
  service_edges :: "ServiceNode list option"

record ProjectNode =
  project_id :: string
  project_name :: string
  project_services :: "ServiceConnection option"

record PageInfo =
  pi_hasNextPage :: "bool option"
  pi_endCursor :: "string option"

record ProjectConnection =
  project_edges :: "ProjectNode list option"
  pageInfo :: PageInfo

record GraphQLData =
  projects :: ProjectConnection

text \<open>
  The interface declares \<^verbatim>\<open>errors\<close> as an array of objects with a \<^verbatim>\<open>message\<close> and
  optional \<^verbatim>\<open>locations\<close>, but \<^verbatim>\<open>response.json()\<close> checks nothing: each element is
  whatever JSON value the upstream sent, with every field it sent (\<^verbatim>\<open>extensions\<close>,
  \<^verbatim>\<open>path\<close>, a \<^verbatim>\<open>locations\<close> that is \<^verbatim>\<open>null\<close>, ...). A JSON value as the runtime holds it
  after parsing: an object lists its properties in the order the runtime enumerates
  them; a number is given by the text \<^verbatim>\<open>JSON.stringify\<close> prints for it (\<^verbatim>\<open>2\<close>, \<^verbatim>\<open>-3.5\<close>,
  \<^verbatim>\<open>1e+21\<close>), since that text is floating-point arithmetic of the runtime.
\<close>

datatype json =
    JNull
  | JBool bool
  | JNumber string
  | JString string
  | JArray "json list"
  | JObject "(string \<times> json) list"

record GraphQLResponse =
  data :: "GraphQLData option"
  errors :: "json list option"

text \<open>
  What \<^verbatim>\<open>fetch\<close> hands back. \<^verbatim>\<open>response.ok\<close> is the Fetch standard's "status in
  200..299"; \<open>resp_json\<close> is the outcome of \<^verbatim>\<open>response.json()\<close>: the decoded value, or
  the message of the \<^verbatim>\<open>SyntaxError\<close> it rejects with. A \<^verbatim>\<open>fetch\<close> that rejects
  (no connection) does so with a \<^verbatim>\<open>TypeError\<close>.
\<close>

record Response =
  resp_status :: nat
  resp_statusText :: string
  resp_text :: string
  resp_json :: "string + GraphQLResponse"

definition ok :: "Response \<Rightarrow> bool" where
  "ok response = (200 \<le> resp_status response \<and> resp_status response \<le> 299)"

datatype fetch_outcome = Rejected string | Resolved Response

text \<open>
  The request the traversal sends: the \<^verbatim>\<open>Authorization\<close> header and the \<^verbatim>\<open>after\<close>
  variable of the query (lines 71-74, 118-127).
\<close>

record Request =
  req_authorization :: string
  req_after :: "string option"

text \<open>
  Everything thrown inside the traversal is an instance of \<^verbatim>\<open>Error\<close>: the two
  \<^verbatim>\<open>new Error(...)\<close> of the code, the \<^verbatim>\<open>TypeError\<close> of a rejected \<^verbatim>\<open>fetch\<close> and the
  \<^verbatim>\<open>SyntaxError\<close> of \<^verbatim>\<open>response.json()\<close>.
\<close>

datatype js_error = Error string | TypeError string | SyntaxError string

fun message :: "js_error \<Rightarrow> string" where
  "message (Error m) = m"
| "message (TypeError m) = m"
| "message (SyntaxError m) = m"

fun instanceof_Error :: "js_error \<Rightarrow> bool" where
  "instanceof_Error (Error m) = True"
| "instanceof_Error (TypeError m) = True"
| "instanceof_Error (SyntaxError m) = True"

section \<open>String operations of the runtime\<close>

text \<open>\<^verbatim>\<open>String.prototype.includes\<close>: the argument occurs somewhere in the string.\<close>

fun includes_str :: "string \<Rightarrow> string \<Rightarrow> bool" where
  "includes_str [] sub = (sub = [])"
| "includes_str (c # cs) sub = (prefix sub (c # cs) \<or> includes_str cs sub)"

text \<open>
  \<^verbatim>\<open>String.prototype.replace\<close> with a string pattern: the first occurrence, wherever it
  is, is replaced; the rest of the string is kept.
\<close>

fun replace :: "string \<Rightarrow> string \<Rightarrow> string \<Rightarrow> string" where
  "replace [] pat rep = (if pat = [] then rep else [])"
| "replace (c # cs) pat rep =
     (if prefix pat (c # cs) then rep @ drop (length pat) (c # cs)
      else c # replace cs pat rep)"

text \<open>Decimal rendering of \<^verbatim>\<open>response.status\<close> in the template literal of line 132.\<close>

definition digit :: "nat \<Rightarrow> char" where
  "digit d = char_of (48 + d)"

function show_nat :: "nat \<Rightarrow> string" where
  "show_nat n = (if n < 10 then [digit n] else show_nat (n div 10) @ [digit (n mod 10)])"
  by pat_completeness auto
termination
  by (relation "measure id") auto

text \<open>
  \<^verbatim>\<open>JSON.stringify\<close>, with no indentation. A string is quoted, with the quote, the
  backslash and the control characters escaped (strings are sequences of bytes here,
  UTF-8, and bytes above 0x7F are kept as they are); an array and an object print all
  their elements and properties, \<^verbatim>\<open>null\<close> included.
\<close>

definition hex_digit :: "nat \<Rightarrow> char" where
  "hex_digit d = (if d < 10 then char_of (48 + d) else char_of (87 + d))"

definition quote_char :: "char \<Rightarrow> string" where
  "quote_char c =
     (if c = CHR 0x22 then [CHR 0x5C, CHR 0x22]
      else if c = CHR 0x5C then [CHR 0x5C, CHR 0x5C]
      else if c = CHR 0x08 then [CHR 0x5C, CHR ''b'']
      else if c = CHR 0x09 then [CHR 0x5C, CHR ''t'']
      else if c = CHR 0x0A then [CHR 0x5C, CHR ''n'']
      else if c = CHR 0x0C then [CHR 0x5C, CHR ''f'']
      else if c = CHR 0x0D then [CHR 0x5C, CHR ''r'']
      else if (of_char c :: nat) < 32
        then [CHR 0x5C, CHR ''u'', CHR ''0'', CHR ''0'',
              hex_digit (of_char c div 16), hex_digit (of_char c mod 16)]
      else [c])"

definition quote :: "string \<Rightarrow> string" where
  "quote s = CHR 0x22 # concat (map quote_char s) @ [CHR 0x22]"

fun join :: "string list \<Rightarrow> string" where
  "join [] = []"
| "join [x] = x"
| "join (x # y # ys) = x @ CHR '','' # join (y # ys)"

fun stringify :: "json \<Rightarrow> string" where
  "stringify JNull = ''null''"
| "stringify (JBool b) = (if b then ''true'' else ''false'')"
| "stringify (JNumber t) = t"
| "stringify (JString s) = quote s"
| "stringify (JArray xs) = ''['' @ join (map stringify xs) @ '']''"
| "stringify (JObject ps) =
     ''{'' @ join (map (\<lambda>p. quote (fst p) @ '':'' @ stringify (snd p)) ps) @ ''}''"

text \<open>\<^verbatim>\<open>JSON.stringify(data.errors)\<close> of line 139: the argument is the array.\<close>

definition JSON_stringify :: "json list \<Rightarrow> string" where
  "JSON_stringify es = stringify (JArray es)"

section \<open>The traversal: \<^verbatim>\<open>getRailwayServiceInfo\<close>\<close>

text \<open>
  The inner \<^verbatim>\<open>for\<close> loop over \<^verbatim>\<open>project.services.edges\<close> (lines 152-176). Each
  \<^verbatim>\<open>continue\<close> goes on with the rest of the list; \<^verbatim>\<open>allServices.push\<close> appends.
\<close>

fun service_loop :: "ProjectNode \<Rightarrow> ServiceNode list \<Rightarrow> RailwayService list \<Rightarrow> RailwayService list" where
  "service_loop project [] allServices = allServices"
| "service_loop project (service # rest) allServices =
     (case serviceInstances service of
        None \<Rightarrow> service_loop project rest allServices
      | Some instances \<Rightarrow>
         (case instance_edges instances of
            None \<Rightarrow> service_loop project rest allServices
          | Some [] \<Rightarrow> service_loop project rest allServices
          | Some (first # others) \<Rightarrow>
             (case latestDeployment first of
                Some deployment \<Rightarrow>
                  service_loop project rest
                    (allServices @
                      [\<lparr> projectId = project_id project,
                         projectName = project_name project,
                         serviceId = service_id service,
                         serviceName = service_name service,
                         deploymentId = dep_id deployment,
                         status = dep_status deployment,
                         staticUrl = dep_staticUrl deployment,
                         deploymentStopped = dep_deploymentStopped deployment \<rparr>])
              | None \<Rightarrow> service_loop project rest allServices)))"

text \<open>The outer \<^verbatim>\<open>for\<close> loop over the page's projects (lines 147-177).\<close>

fun project_loop :: "ProjectNode list \<Rightarrow> RailwayService list \<Rightarrow> RailwayService list" where
  "project_loop [] allServices = allServices"
| "project_loop (project # rest) allServices =
     (case project_services project of
        None \<Rightarrow> project_loop rest allServices
      | Some conn \<Rightarrow>
         (case service_edges conn of
            None \<Rightarrow> project_loop rest allServices
          | Some edges \<Rightarrow> project_loop rest (service_loop project edges allServices)))"

text \<open>The variables of the \<^verbatim>\<open>while\<close> loop (lines 76-78).\<close>

record loop_state =
  allServices :: "RailwayService list"
  hasNextPage :: bool
  afterCursor :: "string option"

text \<open>
  \<^verbatim>\<open>data.data?.projects.edges\<close>, \<^verbatim>\<open>data.data?.projects.pageInfo.hasNextPage\<close> and
  \<^verbatim>\<open>data.data?.projects.pageInfo.endCursor\<close> (lines 142, 179, 180).
\<close>

definition data_projects_edges :: "GraphQLResponse \<Rightarrow> ProjectNode list option" where
  "data_projects_edges d =
     (case data d of None \<Rightarrow> None | Some dd \<Rightarrow> project_edges (projects dd))"

definition data_hasNextPage :: "GraphQLResponse \<Rightarrow> bool option" where
  "data_hasNextPage d =
     (case data d of None \<Rightarrow> None | Some dd \<Rightarrow> pi_hasNextPage (pageInfo (projects dd)))"

definition data_endCursor :: "GraphQLResponse \<Rightarrow> string option" where
  "data_endCursor d =
     (case data d of None \<Rightarrow> None | Some dd \<Rightarrow> pi_endCursor (pageInfo (projects dd)))"

text \<open>
  One pass through the body of the \<^verbatim>\<open>while\<close> loop (lines 122-184), given what
  \<^verbatim>\<open>fetch\<close> produced. \<open>Inl\<close> is the error rethrown by the \<^verbatim>\<open>catch\<close>; the \<^verbatim>\<open>break\<close>
  of line 145 follows \<^verbatim>\<open>hasNextPage = false\<close>, so it leaves the loop exactly as the
  loop test would.
\<close>

definition loop_body :: "fetch_outcome \<Rightarrow> loop_state \<Rightarrow> js_error + loop_state" where
  "loop_body outcome st =
     (case outcome of
        Rejected m \<Rightarrow> Inl (TypeError m)
      | Resolved response \<Rightarrow>
          if \<not> ok response then
            Inl (Error (''GraphQL request failed: '' @ show_nat (resp_status response) @ '' '' @
                        resp_statusText response @ '', '' @ resp_text response))
          else
            (case resp_json response of
               Inl m \<Rightarrow> Inl (SyntaxError m)
             | Inr d \<Rightarrow>
                (case errors d of
                   Some es \<Rightarrow> Inl (Error (''GraphQL errors: '' @ JSON_stringify es))
                 | None \<Rightarrow>
                    (case data_projects_edges d of
                       None \<Rightarrow> Inr (st\<lparr>hasNextPage := False\<rparr>)
                     | Some [] \<Rightarrow> Inr (st\<lparr>hasNextPage := False\<rparr>)
                     | Some (p # ps) \<Rightarrow>
                         Inr \<lparr> allServices = project_loop (p # ps) (allServices st),
                               hasNextPage = (case data_hasNextPage d of Some b \<Rightarrow> b | None \<Rightarrow> False),
                               afterCursor = data_endCursor d \<rparr>))))"

text \<open>
  The \<^verbatim>\<open>while (hasNextPage)\<close> loop (lines 80-185). The upstream is the sequence of
  outcomes of the successive \<^verbatim>\<open>fetch\<close> calls; \<open>sent\<close> collects the requests made so
  far. The loop need not end (an upstream that always answers a non-empty page with
  \<^verbatim>\<open>hasNextPage: true\<close>): not returning is \<open>None\<close>.
\<close>

partial_function (option) fetch_loop ::
  "(nat \<Rightarrow> fetch_outcome) \<Rightarrow> string \<Rightarrow> Request list \<Rightarrow> loop_state \<Rightarrow>
   (Request list \<times> (js_error + RailwayService list)) option" where
  "fetch_loop upstream apiToken sent st =
     (if hasNextPage st then
        (case loop_body (upstream (length sent)) st of
           Inl error \<Rightarrow>
             Some (sent @ [\<lparr> req_authorization = ''Bearer '' @ apiToken,
                              req_after = afterCursor st \<rparr>], Inl error)
         | Inr st' \<Rightarrow>
             fetch_loop upstream apiToken
               (sent @ [\<lparr> req_authorization = ''Bearer '' @ apiToken,
                           req_after = afterCursor st \<rparr>]) st')
      else Some (sent, Inr (allServices st)))"

declare fetch_loop.simps [code]

definition getRailwayServiceInfo ::
  "(nat \<Rightarrow> fetch_outcome) \<Rightarrow> string \<Rightarrow> (Request list \<times> (js_error + RailwayService list)) option" where
  "getRailwayServiceInfo upstream apiToken =
     fetch_loop upstream apiToken []
       \<lparr> allServices = [], hasNextPage = True, afterCursor = None \<rparr>"

section \<open>The route layer\<close>

text \<open>
  The JSON bodies the handlers send, and \<^verbatim>\<open>c.json(body, status)\<close> of the framework:
  the status is 200 when the call gives none.
\<close>

datatype json_body =
    ErrorJson string
  | ServicesJson "RailwayService list"
  | ServiceStatusJson string string

record http_reply =
  code :: nat
  body :: json_body

definition c_json :: "json_body \<Rightarrow> nat option \<Rightarrow> http_reply" where
  "c_json b st = \<lparr> code = (case st of None \<Rightarrow> 200 | Some s \<Rightarrow> s), body = b \<rparr>"

text \<open>
  The \<^verbatim>\<open>catch\<close> block, the same text in both handlers (lines 200-208 and 251-259).
\<close>

definition catch_reply :: "js_error \<Rightarrow> http_reply" where
  "catch_reply error =
     (if instanceof_Error error \<and> includes_str (message error) ''GraphQL request failed''
      then c_json (ErrorJson ''Failed to fetch from Railway API'') (Some 502)
      else c_json (ErrorJson ''Internal Server Error'') (Some 500))"

text \<open>
  \<^verbatim>\<open>GET /api/services/status\<close> (lines 190-209). The argument is the value of the
  \<^verbatim>\<open>Authorization\<close> header, \<open>None\<close> when the request has none; the result pairs the
  reply with the upstream requests made on the way.
\<close>

definition services_status ::
  "(nat \<Rightarrow> fetch_outcome) \<Rightarrow> string option \<Rightarrow> (Request list \<times> http_reply) option" where
  "services_status upstream authorization =
     (case map_option (\<lambda>h. replace h ''Bearer '' []) authorization of
        None \<Rightarrow> Some ([], c_json (ErrorJson ''Unauthorized: API token is required'') (Some 401))
      | Some apiToken \<Rightarrow>
          if apiToken = [] then
            Some ([], c_json (ErrorJson ''Unauthorized: API token is required'') (Some 401))
          else
            (case getRailwayServiceInfo upstream apiToken of
               None \<Rightarrow> None
             | Some (sent, Inr services) \<Rightarrow> Some (sent, c_json (ServicesJson services) None)
             | Some (sent, Inl error) \<Rightarrow> Some (sent, catch_reply error)))"

text \<open>
  \<^verbatim>\<open>GET /api/service/:staticUrl/status\<close> (lines 211-260); the third argument is
  \<^verbatim>\<open>c.req.param("staticUrl")\<close>. Both successful branches call \<^verbatim>\<open>c.json\<close> with one
  argument: the \<^verbatim>\<open>503\<close> of line 243 is a comment.
\<close>

definition service_status ::
  "(nat \<Rightarrow> fetch_outcome) \<Rightarrow> string option \<Rightarrow> string option \<Rightarrow>
   (Request list \<times> http_reply) option" where
  "service_status upstream authorization staticUrl_param =
     (case map_option (\<lambda>h. replace h ''Bearer '' []) authorization of
        None \<Rightarrow> Some ([], c_json (ErrorJson ''Unauthorized: API token is required'') (Some 401))
      | Some apiToken \<Rightarrow>
          if apiToken = [] then
            Some ([], c_json (ErrorJson ''Unauthorized: API token is required'') (Some 401))
          else
            (case staticUrl_param of
               None \<Rightarrow>
                 Some ([], c_json (ErrorJson ''Bad Request: staticUrl parameter is required'') (Some 400))
             | Some url \<Rightarrow>
                 if url = [] then
                   Some ([], c_json (ErrorJson ''Bad Request: staticUrl parameter is required'') (Some 400))
                 else
                   (case getRailwayServiceInfo upstream apiToken of
                      None \<Rightarrow> None
                    | Some (sent, Inr services) \<Rightarrow>
                        (case find (\<lambda>s. staticUrl s = url) services of
                           None \<Rightarrow>
                             Some (sent,
                               c_json (ErrorJson ''Not Found: Service with provided staticUrl not found'')
                                 (Some 404))
                         | Some service \<Rightarrow>
                             if status service \<noteq> ''SUCCESS'' then
                               Some (sent,
                                 c_json (ServiceStatusJson (serviceName service) (status service)) None)
                             else
                               Some (sent,
                                 c_json (ServiceStatusJson (serviceName service) (status service)) None))
                    | Some (sent, Inl error) \<Rightarrow> Some (sent, catch_reply error))))"

section \<open>The vocabulary of the specification\<close>

text \<open>
  The specification speaks of a page, of its projects, of the first service instance of
  a service and of the record a service contributes. These definitions follow its
  words; the theorems below compare them with the code.
\<close>

text \<open>
  A page: the upstream call succeeded at the transport level, its body decoded, and the
  decoded response carries no \<^verbatim>\<open>errors\<close>.
\<close>

definition fetched_page :: "fetch_outcome \<Rightarrow> GraphQLResponse option" where
  "fetched_page outcome =
     (case outcome of
        Rejected m \<Rightarrow> None
      | Resolved response \<Rightarrow>
          if ok response then
            (case resp_json response of
               Inl m \<Rightarrow> None
             | Inr d \<Rightarrow> (case errors d of None \<Rightarrow> Some d | Some es \<Rightarrow> None))
          else None)"

definition page_projects :: "GraphQLResponse \<Rightarrow> ProjectNode list" where
  "page_projects d = (case data_projects_edges d of None \<Rightarrow> [] | Some ps \<Rightarrow> ps)"

text \<open>A page after which more is to be fetched: it is non-empty and says \<^verbatim>\<open>hasNextPage: true\<close>.\<close>

definition continuing :: "fetch_outcome \<Rightarrow> bool" where
  "continuing outcome =
     (case fetched_page outcome of
        None \<Rightarrow> False
      | Some d \<Rightarrow> page_projects d \<noteq> [] \<and> data_hasNextPage d = Some True)"

definition services_of :: "ProjectNode \<Rightarrow> ServiceNode list" where
  "services_of project =
     (case project_services project of
        None \<Rightarrow> []
      | Some conn \<Rightarrow> (case service_edges conn of None \<Rightarrow> [] | Some edges \<Rightarrow> edges))"

definition first_instance :: "ServiceNode \<Rightarrow> InstanceNode option" where
  "first_instance service =
     (case serviceInstances service of
        None \<Rightarrow> None
      | Some instances \<Rightarrow>
         (case instance_edges instances of
            None \<Rightarrow> None
          | Some [] \<Rightarrow> None
          | Some (i # others) \<Rightarrow> Some i))"

text \<open>
  The record of a service: present exactly when the first instance exists and has a
  latest deployment.
\<close>

definition emitted_record :: "ProjectNode \<Rightarrow> ServiceNode \<Rightarrow> RailwayService option" where
  "emitted_record project service =
     (case first_instance service of
        None \<Rightarrow> None
      | Some i \<Rightarrow>
         (case latestDeployment i of
            None \<Rightarrow> None
          | Some deployment \<Rightarrow>
              Some \<lparr> projectId = project_id project,
                     projectName = project_name project,
                     serviceId = service_id service,
                     serviceName = service_name service,
                     deploymentId = dep_id deployment,
                     status = dep_status deployment,
                     staticUrl = dep_staticUrl deployment,
                     deploymentStopped = dep_deploymentStopped deployment \<rparr>))"

text \<open>Projects in page order, services in project order.\<close>

definition page_records :: "ProjectNode list \<Rightarrow> RailwayService list" where
  "page_records ps =
     concat (map (\<lambda>project. List.map_filter (emitted_record project) (services_of project)) ps)"

definition outcome_records :: "fetch_outcome \<Rightarrow> RailwayService list" where
  "outcome_records outcome =
     (case fetched_page outcome of None \<Rightarrow> [] | Some d \<Rightarrow> page_records (page_projects d))"

text \<open>The (project, service) combinations a page holds, and the one a record is for.\<close>

definition page_pairs :: "ProjectNode list \<Rightarrow> (string \<times> string) list" where
  "page_pairs ps =
     concat (map (\<lambda>project. map (\<lambda>service. (project_id project, service_id service))
                              (services_of project)) ps)"

definition outcome_pairs :: "fetch_outcome \<Rightarrow> (string \<times> string) list" where
  "outcome_pairs outcome =
     (case fetched_page outcome of None \<Rightarrow> [] | Some d \<Rightarrow> page_pairs (page_projects d))"

definition record_pair :: "RailwayService \<Rightarrow> string \<times> string" where
  "record_pair r = (projectId r, serviceId r)"

section \<open>Example upstreams\<close>

text \<open>Concrete pages and upstreams on which the theorems below are instantiated.\<close>

definition example_deployment :: "string \<Rightarrow> string \<Rightarrow> Deployment" where
  "example_deployment url st =
     \<lparr> dep_id = ''d-'' @ url, dep_status = st, dep_staticUrl = url,
       dep_deploymentStopped = False \<rparr>"

definition example_service :: "string \<Rightarrow> string \<Rightarrow> Deployment option list \<Rightarrow> ServiceNode" where
  "example_service sid nm deployments =
     \<lparr> service_id = sid, service_name = nm,
       serviceInstances =
         Some \<lparr> instance_edges = Some (map (\<lambda>d. \<lparr> latestDeployment = d \<rparr>) deployments) \<rparr> \<rparr>"

text \<open>
  Project \<open>alpha\<close>: \<open>web\<close> has a deployment on its first instance, \<open>worker\<close> only on
  its second, \<open>cron\<close> has no instance. Project \<open>beta\<close> has no services. Project
  \<open>gamma\<close> has one service whose deployment failed.
\<close>

definition project_alpha :: ProjectNode where
  "project_alpha =
     \<lparr> project_id = ''p1'', project_name = ''alpha'',
       project_services = Some \<lparr> service_edges = Some
         [example_service ''s1'' ''web'' [Some (example_deployment ''web.example'' ''SUCCESS''), None],
          example_service ''s2'' ''worker'' [None, Some (example_deployment ''worker.example'' ''SUCCESS'')],
          example_service ''s3'' ''cron'' []] \<rparr> \<rparr>"

definition project_beta :: ProjectNode where
  "project_beta = \<lparr> project_id = ''p2'', project_name = ''beta'', project_services = None \<rparr>"

definition project_gamma :: ProjectNode where
  "project_gamma =
     \<lparr> project_id = ''p3'', project_name = ''gamma'',
       project_services = Some \<lparr> service_edges = Some
         [example_service ''s4'' ''api'' [Some (example_deployment ''api.example'' ''FAILED'')]] \<rparr> \<rparr>"

definition example_response :: "ProjectNode list \<Rightarrow> bool option \<Rightarrow> string option \<Rightarrow> GraphQLResponse" where
  "example_response ps has_more cursor =
     \<lparr> data = Some \<lparr> projects =
         \<lparr> project_edges = Some ps,
           pageInfo = \<lparr> pi_hasNextPage = has_more, pi_endCursor = cursor \<rparr> \<rparr> \<rparr>,
       errors = None \<rparr>"

definition example_page :: "ProjectNode list \<Rightarrow> bool option \<Rightarrow> string option \<Rightarrow> fetch_outcome" where
  "example_page ps has_more cursor =
     Resolved \<lparr> resp_status = 200, resp_statusText = ''OK'', resp_text = [],
                resp_json = Inr (example_response ps has_more cursor) \<rparr>"

definition example_failure :: Response where
  "example_failure =
     \<lparr> resp_status = 500, resp_statusText = ''Internal Server Error'', resp_text = ''boom'',
       resp_json = Inl ''Unexpected token'' \<rparr>"

text \<open>
  Two \<^verbatim>\<open>errors\<close> payloads: \<^verbatim>\<open>[{"message":m}]\<close> and
  \<^verbatim>\<open>[{"message":m,"locations":null,"path":["projects",0],"extensions":{"code":c}}]\<close>.
\<close>

definition payload_message :: "string \<Rightarrow> json list" where
  "payload_message m = [JObject [(''message'', JString m)]]"

definition payload_extensions :: "string \<Rightarrow> string \<Rightarrow> json list" where
  "payload_extensions m c =
     [JObject [(''message'', JString m), (''locations'', JNull),
               (''path'', JArray [JString ''projects'', JNumber ''0'']),
               (''extensions'', JObject [(''code'', JString c)])]]"

definition example_errors :: "json list \<Rightarrow> Response" where
  "example_errors es =
     \<lparr> resp_status = 200, resp_statusText = ''OK'', resp_text = [],
       resp_json = Inr \<lparr> data = None, errors = Some es \<rparr> \<rparr>"

text \<open>A first page that continues, then whatever the second call is given to answer.\<close>

definition example_upstream :: "fetch_outcome \<Rightarrow> nat \<Rightarrow> fetch_outcome" where
  "example_upstream second n =
     (if n = 0 then example_page [project_alpha, project_beta] (Some True) (Some ''c1'')
      else second)"

text \<open>An upstream that never stops announcing a next page.\<close>

definition example_endless :: "nat \<Rightarrow> fetch_outcome" where
  "example_endless n = example_page [project_beta] (Some True) None"

text \<open>An upstream that gives every call the same answer.\<close>

definition example_always :: "fetch_outcome \<Rightarrow> nat \<Rightarrow> fetch_outcome" where
  "example_always outcome n = outcome"

text \<open>The records of \<open>web\<close> and of \<open>api\<close>.\<close>

definition record_web :: RailwayService where
  "record_web =
     \<lparr> projectId = ''p1'', projectName = ''alpha'', serviceId = ''s1'', serviceName = ''web'',
       deploymentId = ''d-web.example'', status = ''SUCCESS'', staticUrl = ''web.example'',
       deploymentStopped = False \<rparr>"

definition record_api :: RailwayService where
  "record_api =
     \<lparr> projectId = ''p3'', projectName = ''gamma'', serviceId = ''s4'', serviceName = ''api'',
       deploymentId = ''d-api.example'', status = ''FAILED'', staticUrl = ''api.example'',
       deploymentStopped = False \<rparr>"

definition example_state :: loop_state where
  "example_state = \<lparr> allServices = [], hasNextPage = True, afterCursor = None \<rparr>"

lemmas example_defs =
  example_deployment_def example_service_def project_alpha_def project_beta_def
  project_gamma_def example_response_def example_page_def example_failure_def
  example_errors_def payload_message_def payload_extensions_def example_upstream_def example_endless_def example_always_def
  record_web_def record_api_def example_state_def

lemmas page_defs =
  fetched_page_def page_projects_def continuing_def ok_def data_projects_edges_def
  data_hasNextPage_def data_endCursor_def

section \<open>The loops, characterised\<close>

text \<open>The two \<^verbatim>\<open>for\<close> loops append to the accumulator what the specification lists.\<close>

lemma service_loop_append:
  "service_loop project ss acc = acc @ List.map_filter (emitted_record project) ss"
  by (induction ss arbitrary: acc)
     (auto simp: emitted_record_def first_instance_def split: option.splits list.splits)

lemma project_loop_append: "project_loop ps acc = acc @ page_records ps"
  by (induction ps arbitrary: acc)
     (auto simp: page_records_def services_of_def service_loop_append split: option.splits)

lemma loop_body_page:
  assumes "fetched_page outcome = Some d"
  shows "loop_body outcome st =
           Inr (if page_projects d = [] then st\<lparr>hasNextPage := False\<rparr>
                else \<lparr> allServices = allServices st @ page_records (page_projects d),
                       hasNextPage = (data_hasNextPage d = Some True),
                       afterCursor = data_endCursor d \<rparr>)"
  using assms
  by (auto simp: fetched_page_def loop_body_def page_projects_def project_loop_append
           split: fetch_outcome.splits sum.splits option.splits list.splits if_splits)

lemma loop_body_continuing:
  assumes "continuing outcome"
  shows "loop_body outcome st =
           Inr \<lparr> allServices = allServices st @ outcome_records outcome,
                 hasNextPage = True,
                 afterCursor = (case fetched_page outcome of None \<Rightarrow> None | Some d \<Rightarrow> data_endCursor d) \<rparr>"
  using assms
  by (auto simp: continuing_def outcome_records_def loop_body_page split: option.splits)

lemma fetch_loop_continuing:
  assumes "\<forall>i<k. continuing (upstream (length sent + i))" and "hasNextPage st"
  shows "\<exists>sent' st'. fetch_loop upstream apiToken sent st = fetch_loop upstream apiToken sent' st'
           \<and> length sent' = length sent + k \<and> hasNextPage st'
           \<and> allServices st' = allServices st @ concat (map (\<lambda>i. outcome_records (upstream i)) [length sent..<length sent + k])"
  using assms
proof (induction k arbitrary: sent st)
  case 0
  then show ?case by auto
next
  case (Suc k)
  let ?req = "\<lparr> req_authorization = ''Bearer '' @ apiToken, req_after = afterCursor st \<rparr>"
  let ?st1 = "\<lparr> allServices = allServices st @ outcome_records (upstream (length sent)),
                 hasNextPage = True,
                 afterCursor = (case fetched_page (upstream (length sent)) of None \<Rightarrow> None | Some d \<Rightarrow> data_endCursor d) \<rparr>"
  from Suc.prems have c0: "continuing (upstream (length sent))" by force
  have step: "fetch_loop upstream apiToken sent st = fetch_loop upstream apiToken (sent @ [?req]) ?st1"
    using Suc.prems(2) by (subst fetch_loop.simps) (simp add: loop_body_continuing [OF c0])
  have "\<forall>i<k. continuing (upstream (length (sent @ [?req]) + i))"
    using Suc.prems(1) by (metis Suc_less_eq add_Suc add_Suc_right length_append_singleton)
  moreover have "hasNextPage ?st1" by simp
  ultimately obtain sent' st' where
    IH: "fetch_loop upstream apiToken (sent @ [?req]) ?st1 = fetch_loop upstream apiToken sent' st'"
        "length sent' = length (sent @ [?req]) + k" "hasNextPage st'"
        "allServices st' = allServices ?st1 @ concat (map (\<lambda>i. outcome_records (upstream i)) [length (sent @ [?req])..<length (sent @ [?req]) + k])"
    using Suc.IH [of "sent @ [?req]" ?st1] by blast
  have e: "[length sent..<length sent + Suc k] = length sent # [length (sent @ [?req])..<length (sent @ [?req]) + k]"
    by (simp add: upt_conv_Cons del: upt_Suc)
  have "allServices st' = allServices st @ concat (map (\<lambda>i. outcome_records (upstream i)) [length sent..<length sent + Suc k])"
    unfolding e using IH(4) by simp
  with step IH(1,2,3) show ?case
    by (intro exI [of _ sent'] exI [of _ st']) simp
qed



lemma loop_body_Inr_page:
  assumes "loop_body outcome st = Inr st1"
  shows "\<exists>d. fetched_page outcome = Some d"
  using assms
  by (auto simp: loop_body_def fetched_page_def
           split: fetch_outcome.splits sum.splits option.splits if_splits)

lemma loop_body_records:
  assumes "loop_body outcome st = Inr st1"
  shows "allServices st1 = allServices st @ outcome_records outcome"
proof -
  from loop_body_Inr_page [OF assms] obtain d where d: "fetched_page outcome = Some d" ..
  from assms show ?thesis
    unfolding loop_body_page [OF d] outcome_records_def d
    by (auto simp: page_records_def split: if_splits)
qed

lemma fetch_loop_records:
  assumes "fetch_loop upstream apiToken sent st = Some y"
  shows "length sent \<le> length (fst y) \<and> (\<forall>rs. snd y = Inr rs \<longrightarrow>
           rs = allServices st @ concat (map (\<lambda>i. outcome_records (upstream i)) [length sent..<length (fst y)]))"
proof (rule fetch_loop.raw_induct
         [where P = "\<lambda>upstream apiToken sent st y.
                       length sent \<le> length (fst y) \<and> (\<forall>rs. snd y = Inr rs \<longrightarrow>
                         rs = allServices st @ concat (map (\<lambda>i. outcome_records (upstream i)) [length sent..<length (fst y)]))",
          OF _ assms], goal_cases)
  case (1 loop upstream apiToken sent st y)
  show ?case
  proof (cases "hasNextPage st")
    case False
    with 1(2) show ?thesis by auto
  next
    case True
    let ?req = "\<lparr> req_authorization = ''Bearer '' @ apiToken, req_after = afterCursor st \<rparr>"
    show ?thesis
    proof (cases "loop_body (upstream (length sent)) st")
      case (Inl e)
      with True 1(2) show ?thesis by auto
    next
      case (Inr st1)
      with True 1(2) have run: "loop upstream apiToken (sent @ [?req]) st1 = Some y" by simp
      note IH = 1(1) [OF run]
      from IH have len: "length sent < length (fst y)" by simp
      have e: "[length sent..<length (fst y)] = length sent # [length (sent @ [?req])..<length (fst y)]"
        using upt_conv_Cons [OF len] by simp
      have st1: "allServices st1 = allServices st @ outcome_records (upstream (length sent))"
        by (rule loop_body_records [OF Inr])
      have "rs = allServices st @ concat (map (\<lambda>i. outcome_records (upstream i)) [length sent..<length (fst y)])"
        if "snd y = Inr rs" for rs
      proof -
        from IH that have "rs = allServices st1 @ concat (map (\<lambda>i. outcome_records (upstream i)) [length (sent @ [?req])..<length (fst y)])"
          by simp
        then show ?thesis unfolding e st1 by simp
      qed
      with len show ?thesis by simp
    qed
  qed
qed


lemma subseq_service_records:
  "subseq (map record_pair (List.map_filter (emitted_record project) ss))
          (map (\<lambda>service. (project_id project, service_id service)) ss)"
  by (induction ss) (auto simp: emitted_record_def record_pair_def split: option.splits)

lemma subseq_page_records:
  "subseq (map record_pair (page_records ps)) (page_pairs ps)"
  by (induction ps)
     (auto simp: page_records_def page_pairs_def subseq_service_records intro!: list_emb_append_mono)

lemma subseq_outcome_records:
  "subseq (map record_pair (outcome_records outcome)) (outcome_pairs outcome)"
  by (simp add: outcome_records_def outcome_pairs_def subseq_page_records split: option.splits)

lemma subseq_concat_records:
  "subseq (map record_pair (concat (map (\<lambda>i. outcome_records (upstream i)) is)))
          (concat (map (\<lambda>i. outcome_pairs (upstream i)) is))"
  by (induction "is") (auto simp: subseq_outcome_records intro!: list_emb_append_mono)

lemma subseq_distinct:
  assumes "subseq xs ys" and "distinct ys"
  shows "distinct xs"
  using assms
  by (induction rule: list_emb.induct) (auto dest: list_emb_set)

subsection \<open>Leaving the loop\<close>

lemma fetch_loop_throw:
  assumes "hasNextPage st" and "loop_body (upstream (length sent)) st = Inl e"
  shows "fetch_loop upstream apiToken sent st =
           Some (sent @ [\<lparr> req_authorization = ''Bearer '' @ apiToken,
                            req_after = afterCursor st \<rparr>], Inl e)"
  using assms by (subst fetch_loop.simps) simp

lemma fetch_loop_last:
  assumes "hasNextPage st" and "loop_body (upstream (length sent)) st = Inr st'"
    and "\<not> hasNextPage st'"
  shows "fetch_loop upstream apiToken sent st =
           Some (sent @ [\<lparr> req_authorization = ''Bearer '' @ apiToken,
                            req_after = afterCursor st \<rparr>], Inr (allServices st'))"
proof -
  have "fetch_loop upstream apiToken sent st =
          fetch_loop upstream apiToken
            (sent @ [\<lparr> req_authorization = ''Bearer '' @ apiToken,
                        req_after = afterCursor st \<rparr>]) st'"
    using assms(1,2) by (subst fetch_loop.simps) simp
  also have "\<dots> = Some (sent @ [\<lparr> req_authorization = ''Bearer '' @ apiToken,
                                   req_after = afterCursor st \<rparr>], Inr (allServices st'))"
    using assms(3) by (subst fetch_loop.simps) simp
  finally show ?thesis .
qed

lemma traversal_continuing:
  assumes "\<forall>i<k. continuing (upstream i)"
  shows "\<exists>sent st. getRailwayServiceInfo upstream apiToken = fetch_loop upstream apiToken sent st
           \<and> length sent = k \<and> hasNextPage st
           \<and> allServices st = concat (map (\<lambda>i. outcome_records (upstream i)) [0..<k])"
  using fetch_loop_continuing
          [of k upstream "[]" "\<lparr> allServices = [], hasNextPage = True, afterCursor = None \<rparr>" apiToken]
        assms
  unfolding getRailwayServiceInfo_def by simp

subsection \<open>The error message and the \<^verbatim>\<open>catch\<close> block\<close>

lemma includes_str_append: "includes_str (sub @ rest) sub"
proof (cases "sub @ rest")
  case Nil
  then show ?thesis by simp
next
  case (Cons c cs)
  have "prefix sub (sub @ rest)" by simp
  then show ?thesis unfolding Cons by simp
qed

lemma includes_errors_prefix:
  "includes_str (''GraphQL errors: '' @ s) ''GraphQL request failed'' =
   includes_str s ''GraphQL request failed''"
  by simp

lemma catch_reply_failed:
  "catch_reply (Error (''GraphQL request failed: '' @ rest)) =
     \<lparr> code = 502, body = ErrorJson ''Failed to fetch from Railway API'' \<rparr>"
  using includes_str_append [of "''GraphQL request failed''" "'': '' @ rest"]
  by (simp add: catch_reply_def c_json_def)

lemma loop_body_not_ok:
  assumes "\<not> ok response"
  shows "loop_body (Resolved response) st =
           Inl (Error (''GraphQL request failed: '' @ show_nat (resp_status response) @ '' '' @
                       resp_statusText response @ '', '' @ resp_text response))"
  using assms by (simp add: loop_body_def)

lemma loop_body_errors:
  assumes "ok response" and "resp_json response = Inr d" and "errors d = Some es"
  shows "loop_body (Resolved response) st = Inl (Error (''GraphQL errors: '' @ JSON_stringify es))"
  using assms by (simp add: loop_body_def)

lemma traversal_throw:
  assumes "\<forall>i<k. continuing (upstream i)" and "\<And>st. loop_body (upstream k) st = Inl e"
  shows "\<exists>sent. getRailwayServiceInfo upstream apiToken = Some (sent, Inl e) \<and> length sent = Suc k"
proof -
  from traversal_continuing [OF assms(1)] obtain sent st where
    run: "getRailwayServiceInfo upstream apiToken = fetch_loop upstream apiToken sent st"
    and len: "length sent = k" and more: "hasNextPage st"
    by blast
  from assms(2) len have "loop_body (upstream (length sent)) st = Inl e" by simp
  from fetch_loop_throw [where upstream = upstream and sent = sent and st = st, OF more this] run len show ?thesis by simp
qed

lemma traversal_last:
  assumes "\<forall>i<k. continuing (upstream i)" and "fetched_page (upstream k) = Some d"
    and "page_projects d = [] \<or> data_hasNextPage d \<noteq> Some True"
  shows "\<exists>sent. getRailwayServiceInfo upstream apiToken =
                  Some (sent, Inr (concat (map (\<lambda>i. outcome_records (upstream i)) [0..<Suc k])))
               \<and> length sent = Suc k"
proof -
  from traversal_continuing [OF assms(1)] obtain sent st where
    run: "getRailwayServiceInfo upstream apiToken = fetch_loop upstream apiToken sent st"
    and len: "length sent = k" and more: "hasNextPage st"
    and acc: "allServices st = concat (map (\<lambda>i. outcome_records (upstream i)) [0..<k])"
    by blast
  let ?st' = "if page_projects d = [] then st\<lparr>hasNextPage := False\<rparr>
              else \<lparr> allServices = allServices st @ page_records (page_projects d),
                     hasNextPage = (data_hasNextPage d = Some True),
                     afterCursor = data_endCursor d \<rparr>"
  have body: "loop_body (upstream (length sent)) st = Inr ?st'"
    using loop_body_page [OF assms(2)] len by simp
  have stop: "\<not> hasNextPage ?st'" using assms(3) by auto
  have recs: "allServices ?st' = concat (map (\<lambda>i. outcome_records (upstream i)) [0..<Suc k])"
    using acc assms(2) by (simp add: outcome_records_def page_records_def)
  from fetch_loop_last [where upstream = upstream and sent = sent and st = st, OF more body stop] run len recs show ?thesis by simp
qed

lemma traversal_diverges:
  assumes "\<forall>i. continuing (upstream i)"
  shows "getRailwayServiceInfo upstream apiToken = None"
proof (cases "getRailwayServiceInfo upstream apiToken")
  case None
  then show ?thesis .
next
  case (Some y)
  from assms have "\<forall>i<Suc (length (fst y)). continuing (upstream i)" by simp
  from traversal_continuing [OF this] obtain sent st where
    run: "getRailwayServiceInfo upstream apiToken = fetch_loop upstream apiToken sent st"
    and len: "length sent = Suc (length (fst y))"
    by blast
  from run Some have "fetch_loop upstream apiToken sent st = Some y" by simp
  from fetch_loop_records [OF this] have "length sent \<le> length (fst y)" by simp
  with len show ?thesis by simp
qed

lemma services_status_error:
  assumes "replace h ''Bearer '' [] \<noteq> []"
    and "getRailwayServiceInfo upstream (replace h ''Bearer '' []) = Some (sent, Inl e)"
  shows "services_status upstream (Some h) = Some (sent, catch_reply e)"
  using assms by (simp add: services_status_def)

lemma service_status_error:
  assumes "replace h ''Bearer '' [] \<noteq> []" and "url \<noteq> []"
    and "getRailwayServiceInfo upstream (replace h ''Bearer '' []) = Some (sent, Inl e)"
  shows "service_status upstream (Some h) (Some url) = Some (sent, catch_reply e)"
  using assms by (simp add: service_status_def)

lemma catch_reply_error_body: "\<exists>c m. catch_reply e = \<lparr> code = c, body = ErrorJson m \<rparr>"
  by (simp add: catch_reply_def c_json_def)

subsection \<open>The example upstream, run\<close>

lemma example_traversal:
  "getRailwayServiceInfo (example_upstream (example_page [project_gamma] (Some False) None)) tok =
     Some ([\<lparr> req_authorization = ''Bearer '' @ tok, req_after = None \<rparr>,
            \<lparr> req_authorization = ''Bearer '' @ tok, req_after = Some ''c1'' \<rparr>],
           Inr [record_web, record_api])"
proof -
  let ?up = "example_upstream (example_page [project_gamma] (Some False) None)"
  let ?st0 = "\<lparr> allServices = [], hasNextPage = True, afterCursor = None \<rparr>"
  let ?r0 = "\<lparr> req_authorization = ''Bearer '' @ tok, req_after = None \<rparr>"
  let ?st1 = "\<lparr> allServices = [record_web], hasNextPage = True, afterCursor = Some ''c1'' \<rparr>"
  let ?st2 = "\<lparr> allServices = [record_web, record_api], hasNextPage = False, afterCursor = None \<rparr>"
  have b0: "loop_body (?up 0) ?st0 = Inr ?st1"
    by (simp add: loop_body_def page_defs example_defs)
  have b1: "loop_body (?up (Suc 0)) ?st1 = Inr ?st2"
    by (simp add: loop_body_def page_defs example_defs)
  have "fetch_loop ?up tok [] ?st0 = fetch_loop ?up tok [?r0] ?st1"
    by (subst fetch_loop.simps) (simp add: b0)
  also have "\<dots> = fetch_loop ?up tok [?r0, \<lparr> req_authorization = ''Bearer '' @ tok, req_after = Some ''c1'' \<rparr>] ?st2"
    by (subst fetch_loop.simps) (simp add: b1)
  also have "\<dots> = Some ([?r0, \<lparr> req_authorization = ''Bearer '' @ tok, req_after = Some ''c1'' \<rparr>],
                         Inr [record_web, record_api])"
    by (subst fetch_loop.simps) simp
  finally show ?thesis unfolding getRailwayServiceInfo_def by simp
qed

lemma services_status_ok:
  assumes "replace h ''Bearer '' [] \<noteq> []"
    and "getRailwayServiceInfo upstream (replace h ''Bearer '' []) = Some (sent, Inr rs)"
  shows "services_status upstream (Some h) = Some (sent, \<lparr> code = 200, body = ServicesJson rs \<rparr>)"
  using assms by (simp add: services_status_def c_json_def)

lemma service_status_ok:
  assumes "replace h ''Bearer '' [] \<noteq> []" and "url \<noteq> []"
    and "getRailwayServiceInfo upstream (replace h ''Bearer '' []) = Some (sent, Inr rs)"
  shows "service_status upstream (Some h) (Some url) =
           Some (sent,
             case find (\<lambda>s. staticUrl s = url) rs of
               None \<Rightarrow> \<lparr> code = 404,
                         body = ErrorJson ''Not Found: Service with provided staticUrl not found'' \<rparr>
             | Some service \<Rightarrow>
                 \<lparr> code = 200, body = ServiceStatusJson (serviceName service) (status service) \<rparr>)"
  using assms by (simp add: service_status_def c_json_def split: option.splits)

lemma traversal_records:
  assumes "getRailwayServiceInfo upstream apiToken = Some (sent, Inr rs)"
  shows "rs = concat (map (\<lambda>i. outcome_records (upstream i)) [0..<length sent])"
  using fetch_loop_records [OF assms [unfolded getRailwayServiceInfo_def]] by simp






section \<open>The claims\<close>

text \<open>
  C1. Every page is flattened by going through its projects in page order and through
  the services of each project in order, looking only at the first service instance of
  a service: the record built from the project, the service and the deployment is
  emitted exactly when that first instance exists and has a latest deployment. A
  service without instances, a first instance without a latest deployment and a project
  without services add nothing, and the page is processed without an error.
\<close>

theorem page_records_emitted:
  assumes "fetched_page outcome = Some d"
  shows "project_loop (page_projects d) acc =
           acc @ concat (map (\<lambda>project. List.map_filter (emitted_record project) (services_of project))
                          (page_projects d))
         \<and> (\<exists>st'. loop_body outcome st = Inr st' \<and>
               allServices st' =
                 allServices st @
                 concat (map (\<lambda>project. List.map_filter (emitted_record project) (services_of project))
                          (page_projects d)))
         \<and> (\<forall>project service.
               (emitted_record project service = None) =
               (first_instance service = None \<or>
                (\<exists>i. first_instance service = Some i \<and> latestDeployment i = None)))"
proof (intro conjI allI)
  show "project_loop (page_projects d) acc =
          acc @ concat (map (\<lambda>project. List.map_filter (emitted_record project) (services_of project))
                         (page_projects d))"
    by (simp add: project_loop_append page_records_def)
  show "\<exists>st'. loop_body outcome st = Inr st' \<and>
          allServices st' =
            allServices st @
            concat (map (\<lambda>project. List.map_filter (emitted_record project) (services_of project))
                     (page_projects d))"
    unfolding loop_body_page [OF assms] by (simp add: page_records_def)
  show "(emitted_record project service = None) =
        (first_instance service = None \<or>
         (\<exists>i. first_instance service = Some i \<and> latestDeployment i = None))"
    for project service
    by (auto simp: emitted_record_def split: option.splits)
qed

theorem page_records_emitted_witness:
  "fetched_page (example_page [project_alpha, project_beta, project_gamma] (Some True) (Some ''c1''))
     = Some (example_response [project_alpha, project_beta, project_gamma] (Some True) (Some ''c1''))
   \<and> (\<exists>st'. loop_body (example_page [project_alpha, project_beta, project_gamma] (Some True) (Some ''c1''))
                 example_state = Inr st' \<and>
          allServices st' =
            [\<lparr> projectId = ''p1'', projectName = ''alpha'', serviceId = ''s1'', serviceName = ''web'',
                deploymentId = ''d-web.example'', status = ''SUCCESS'', staticUrl = ''web.example'',
                deploymentStopped = False \<rparr>,
             \<lparr> projectId = ''p3'', projectName = ''gamma'', serviceId = ''s4'', serviceName = ''api'',
                deploymentId = ''d-api.example'', status = ''FAILED'', staticUrl = ''api.example'',
                deploymentStopped = False \<rparr>])"
proof -
  have h: "fetched_page (example_page [project_alpha, project_beta, project_gamma] (Some True) (Some ''c1''))
             = Some (example_response [project_alpha, project_beta, project_gamma] (Some True) (Some ''c1''))"
    by (simp add: page_defs example_defs)
  show ?thesis
    using h page_records_emitted [OF h, of "[]" example_state]
    by (simp add: page_defs example_defs services_of_def emitted_record_def first_instance_def)
qed

text \<open>
  C2. The pagination loop stops at the first page that is empty or whose \<^verbatim>\<open>hasNextPage\<close>
  is not true, and at no page before it: when the first \<open>k\<close> answers are non-empty
  pages with \<^verbatim>\<open>hasNextPage: true\<close> and answer \<open>k\<close> is a page with no projects (whatever
  its \<^verbatim>\<open>hasNextPage\<close>) or without \<^verbatim>\<open>hasNextPage: true\<close>, the traversal returns after
  exactly \<open>k + 1\<close> requests; when every answer is a non-empty page with
  \<^verbatim>\<open>hasNextPage: true\<close>, it never returns.
\<close>

theorem pagination_stops_at_first_final_page:
  "((\<forall>i<k. continuing (upstream i)) \<longrightarrow>
      fetched_page (upstream k) = Some d \<longrightarrow>
      (page_projects d = [] \<or> data_hasNextPage d \<noteq> Some True) \<longrightarrow>
      (\<exists>sent rs. getRailwayServiceInfo upstream apiToken = Some (sent, Inr rs) \<and> length sent = Suc k))
   \<and> ((\<forall>i. continuing (upstream i)) \<longrightarrow> getRailwayServiceInfo upstream apiToken = None)"
  using traversal_last [of k upstream d apiToken] traversal_diverges [of upstream apiToken]
  by blast

theorem pagination_stops_at_first_final_page_witness:
  "continuing (example_upstream (example_page [] (Some True) (Some ''c2'')) 0)
   \<and> fetched_page (example_upstream (example_page [] (Some True) (Some ''c2'')) 1)
       = Some (example_response [] (Some True) (Some ''c2''))
   \<and> page_projects (example_response [] (Some True) (Some ''c2'')) = []
   \<and> data_hasNextPage (example_response [] (Some True) (Some ''c2'')) = Some True
   \<and> (\<exists>sent rs. getRailwayServiceInfo (example_upstream (example_page [] (Some True) (Some ''c2''))) ''token''
                    = Some (sent, Inr rs) \<and> length sent = Suc 1)
   \<and> (\<forall>i. continuing (example_endless i))
   \<and> getRailwayServiceInfo example_endless ''token'' = None"
proof -
  let ?up = "example_upstream (example_page [] (Some True) (Some ''c2''))"
  let ?d = "example_response [] (Some True) (Some ''c2'')"
  have h0: "continuing (?up 0)" by (simp add: page_defs example_defs)
  then have h1: "\<forall>i<1. continuing (?up i)" by simp
  have h2: "fetched_page (?up 1) = Some ?d" by (simp add: page_defs example_defs)
  have h3: "page_projects ?d = []" by (simp add: page_defs example_defs)
  have h3': "data_hasNextPage ?d = Some True" by (simp add: page_defs example_defs)
  have h4: "\<forall>i. continuing (example_endless i)"
    by (simp add: page_defs example_defs)
  from pagination_stops_at_first_final_page [of 1 ?up ?d "''token''"] h1 h2 h3
  have c1: "\<exists>sent rs. getRailwayServiceInfo ?up ''token'' = Some (sent, Inr rs) \<and> length sent = Suc 1"
    by blast
  from pagination_stops_at_first_final_page [of 0 example_endless ?d "''token''"] h4
  have c2: "getRailwayServiceInfo example_endless ''token'' = None"
    by blast
  from h0 h2 h3 h3' h4 c1 c2 show ?thesis by blast
qed

text \<open>
  C3. When an upstream call of the traversal answers with a non-success status, or its
  decoded response carries \<^verbatim>\<open>errors\<close>, the traversal ends in an error: it returns no
  list, and both endpoints answer with an error body, whatever the earlier pages of the
  request had contributed.
\<close>

theorem failure_discards_partial_results:
  assumes "\<forall>i<k. continuing (upstream i)" and "upstream k = Resolved response"
    and "\<not> ok response \<or> (\<exists>d es. resp_json response = Inr d \<and> errors d = Some es)"
    and "replace h ''Bearer '' [] \<noteq> []" and "url \<noteq> []"
  shows "\<exists>sent m c msg.
           getRailwayServiceInfo upstream (replace h ''Bearer '' []) = Some (sent, Inl (Error m))
           \<and> length sent = Suc k
           \<and> services_status upstream (Some h) = Some (sent, \<lparr> code = c, body = ErrorJson msg \<rparr>)
           \<and> service_status upstream (Some h) (Some url) = Some (sent, \<lparr> code = c, body = ErrorJson msg \<rparr>)"
proof -
  have "\<exists>m. \<forall>st. loop_body (upstream k) st = Inl (Error m)"
  proof (cases "ok response")
    case False
    then show ?thesis using assms(2) loop_body_not_ok by auto
  next
    case True
    with assms(3) obtain d es where "resp_json response = Inr d" "errors d = Some es" by blast
    with True show ?thesis using assms(2) loop_body_errors by auto
  qed
  then obtain m where body: "\<And>st. loop_body (upstream k) st = Inl (Error m)" by blast
  from traversal_throw [OF assms(1) body] obtain sent where
    run: "getRailwayServiceInfo upstream (replace h ''Bearer '' []) = Some (sent, Inl (Error m))"
    and len: "length sent = Suc k"
    by blast
  obtain c msg where reply: "catch_reply (Error m) = \<lparr> code = c, body = ErrorJson msg \<rparr>"
    using catch_reply_error_body by blast
  show ?thesis
    using run len reply services_status_error [OF assms(4) run]
      service_status_error [OF assms(4,5) run]
    by auto
qed

theorem failure_discards_partial_results_witness:
  "continuing (example_upstream (Resolved example_failure) 0)
   \<and> example_upstream (Resolved example_failure) 1 = Resolved example_failure
   \<and> \<not> ok example_failure
   \<and> replace ''Bearer token'' ''Bearer '' [] \<noteq> [] \<and> ''web.example'' \<noteq> []
   \<and> outcome_records (example_upstream (Resolved example_failure) 0) \<noteq> []
   \<and> (\<exists>sent m c msg.
         getRailwayServiceInfo (example_upstream (Resolved example_failure))
           (replace ''Bearer token'' ''Bearer '' []) = Some (sent, Inl (Error m))
         \<and> length sent = Suc 1
         \<and> services_status (example_upstream (Resolved example_failure)) (Some ''Bearer token'')
             = Some (sent, \<lparr> code = c, body = ErrorJson msg \<rparr>)
         \<and> service_status (example_upstream (Resolved example_failure)) (Some ''Bearer token'')
               (Some ''web.example'')
             = Some (sent, \<lparr> code = c, body = ErrorJson msg \<rparr>))"
proof -
  let ?up = "example_upstream (Resolved example_failure)"
  have h0: "continuing (?up 0)" by (simp add: page_defs example_defs)
  then have h1: "\<forall>i<1. continuing (?up i)" by simp
  have h2: "?up 1 = Resolved example_failure" by (simp add: example_upstream_def)
  have h3: "\<not> ok example_failure" by (simp add: ok_def example_failure_def)
  then have h3': "\<not> ok example_failure \<or> (\<exists>d es. resp_json example_failure = Inr d \<and> errors d = Some es)"
    by simp
  have h4: "replace ''Bearer token'' ''Bearer '' [] \<noteq> []" by simp
  have h5: "''web.example'' \<noteq> []" by simp
  have h6: "outcome_records (?up 0) \<noteq> []"
    by (simp add: outcome_records_def page_records_def services_of_def emitted_record_def
                  first_instance_def page_defs example_defs)
  from failure_discards_partial_results [OF h1 h2 h3' h4 h5] h0 h2 h3 h4 h5 h6
  show ?thesis by blast
qed

text \<open>
  C6. When the traversal fails because an upstream call answered with a non-success
  HTTP status, both protected endpoints respond 502 with the body
  \<^verbatim>\<open>{"error":"Failed to fetch from Railway API"}\<close>.
\<close>

theorem transport_failure_bad_gateway:
  assumes "\<forall>i<k. continuing (upstream i)" and "upstream k = Resolved response"
    and "\<not> ok response"
    and "replace h ''Bearer '' [] \<noteq> []" and "url \<noteq> []"
  shows "\<exists>sent. length sent = Suc k
           \<and> services_status upstream (Some h) =
               Some (sent, \<lparr> code = 502, body = ErrorJson ''Failed to fetch from Railway API'' \<rparr>)
           \<and> service_status upstream (Some h) (Some url) =
               Some (sent, \<lparr> code = 502, body = ErrorJson ''Failed to fetch from Railway API'' \<rparr>)"
proof -
  let ?e = "Error (''GraphQL request failed: '' @ show_nat (resp_status response) @ '' '' @
                   resp_statusText response @ '', '' @ resp_text response)"
  have body: "\<And>st. loop_body (upstream k) st = Inl ?e"
    using assms(2) loop_body_not_ok [OF assms(3)] by simp
  from traversal_throw [OF assms(1) body] obtain sent where
    run: "getRailwayServiceInfo upstream (replace h ''Bearer '' []) = Some (sent, Inl ?e)"
    and len: "length sent = Suc k"
    by blast
  from services_status_error [OF assms(4) run] service_status_error [OF assms(4,5) run]
  have "services_status upstream (Some h) =
          Some (sent, \<lparr> code = 502, body = ErrorJson ''Failed to fetch from Railway API'' \<rparr>)"
    and "service_status upstream (Some h) (Some url) =
          Some (sent, \<lparr> code = 502, body = ErrorJson ''Failed to fetch from Railway API'' \<rparr>)"
    unfolding catch_reply_failed by blast+
  with len show ?thesis by blast
qed

theorem transport_failure_bad_gateway_witness:
  "continuing (example_upstream (Resolved example_failure) 0)
   \<and> example_upstream (Resolved example_failure) 1 = Resolved example_failure
   \<and> \<not> ok example_failure
   \<and> replace ''Bearer token'' ''Bearer '' [] \<noteq> [] \<and> ''web.example'' \<noteq> []
   \<and> (\<exists>sent. length sent = Suc 1
         \<and> services_status (example_upstream (Resolved example_failure)) (Some ''Bearer token'') =
             Some (sent, \<lparr> code = 502, body = ErrorJson ''Failed to fetch from Railway API'' \<rparr>)
         \<and> service_status (example_upstream (Resolved example_failure)) (Some ''Bearer token'')
               (Some ''web.example'') =
             Some (sent, \<lparr> code = 502, body = ErrorJson ''Failed to fetch from Railway API'' \<rparr>))"
proof -
  let ?up = "example_upstream (Resolved example_failure)"
  have h0: "continuing (?up 0)" by (simp add: page_defs example_defs)
  then have h1: "\<forall>i<1. continuing (?up i)" by simp
  have h2: "?up 1 = Resolved example_failure" by (simp add: example_upstream_def)
  have h3: "\<not> ok example_failure" by (simp add: ok_def example_failure_def)
  have h4: "replace ''Bearer token'' ''Bearer '' [] \<noteq> []" by simp
  have h5: "''web.example'' \<noteq> []" by simp
  from transport_failure_bad_gateway [OF h1 h2 h3 h4 h5] h0 h2 h3 h4 h5
  show ?thesis by blast
qed

text \<open>
  C5. For an authorized request to the lookup endpoint whose traversal succeeds: when no
  record has the \<^verbatim>\<open>staticUrl\<close> of the path parameter the answer is 404 with a not-found
  error body; when one has, the answer carries the \<^verbatim>\<open>serviceName\<close> and the \<^verbatim>\<open>status\<close> of
  the (first) matching record, with code 200 whatever the status is.
\<close>

theorem lookup_by_static_url:
  assumes "replace h ''Bearer '' [] \<noteq> []" and "url \<noteq> []"
    and "getRailwayServiceInfo upstream (replace h ''Bearer '' []) = Some (sent, Inr rs)"
  shows "((\<forall>s\<in>set rs. staticUrl s \<noteq> url) \<longrightarrow>
            service_status upstream (Some h) (Some url) =
              Some (sent, \<lparr> code = 404,
                             body = ErrorJson ''Not Found: Service with provided staticUrl not found'' \<rparr>))
         \<and> ((\<exists>s\<in>set rs. staticUrl s = url) \<longrightarrow>
              (\<exists>s. find (\<lambda>s. staticUrl s = url) rs = Some s \<and> s \<in> set rs \<and> staticUrl s = url \<and>
                   service_status upstream (Some h) (Some url) =
                     Some (sent, \<lparr> code = 200,
                                    body = ServiceStatusJson (serviceName s) (status s) \<rparr>)))"
proof (intro conjI impI)
  assume "\<forall>s\<in>set rs. staticUrl s \<noteq> url"
  then have "find (\<lambda>s. staticUrl s = url) rs = None" by (simp add: find_None_iff)
  then show "service_status upstream (Some h) (Some url) =
               Some (sent, \<lparr> code = 404,
                              body = ErrorJson ''Not Found: Service with provided staticUrl not found'' \<rparr>)"
    using service_status_ok [OF assms] by simp
next
  assume "\<exists>s\<in>set rs. staticUrl s = url"
  then obtain s where s: "find (\<lambda>s. staticUrl s = url) rs = Some s"
    by (cases "find (\<lambda>s. staticUrl s = url) rs") (auto simp: find_None_iff)
  then have "s \<in> set rs" and "staticUrl s = url"
    by (auto simp: find_Some_iff)
  with s show "\<exists>s. find (\<lambda>s. staticUrl s = url) rs = Some s \<and> s \<in> set rs \<and> staticUrl s = url \<and>
                 service_status upstream (Some h) (Some url) =
                   Some (sent, \<lparr> code = 200,
                                  body = ServiceStatusJson (serviceName s) (status s) \<rparr>)"
    using service_status_ok [OF assms] by simp
qed

theorem lookup_by_static_url_witness:
  "replace ''Bearer token'' ''Bearer '' [] \<noteq> [] \<and> ''api.example'' \<noteq> [] \<and> ''nope.example'' \<noteq> []
   \<and> getRailwayServiceInfo (example_upstream (example_page [project_gamma] (Some False) None))
         (replace ''Bearer token'' ''Bearer '' []) =
       Some ([\<lparr> req_authorization = ''Bearer token'', req_after = None \<rparr>,
              \<lparr> req_authorization = ''Bearer token'', req_after = Some ''c1'' \<rparr>],
             Inr [record_web, record_api])
   \<and> staticUrl record_api = ''api.example'' \<and> status record_api = ''FAILED''
   \<and> staticUrl record_web \<noteq> ''nope.example'' \<and> staticUrl record_api \<noteq> ''nope.example''
   \<and> service_status (example_upstream (example_page [project_gamma] (Some False) None))
         (Some ''Bearer token'') (Some ''api.example'') =
       Some ([\<lparr> req_authorization = ''Bearer token'', req_after = None \<rparr>,
              \<lparr> req_authorization = ''Bearer token'', req_after = Some ''c1'' \<rparr>],
             \<lparr> code = 200, body = ServiceStatusJson ''api'' ''FAILED'' \<rparr>)
   \<and> service_status (example_upstream (example_page [project_gamma] (Some False) None))
         (Some ''Bearer token'') (Some ''nope.example'') =
       Some ([\<lparr> req_authorization = ''Bearer token'', req_after = None \<rparr>,
              \<lparr> req_authorization = ''Bearer token'', req_after = Some ''c1'' \<rparr>],
             \<lparr> code = 404,
                body = ErrorJson ''Not Found: Service with provided staticUrl not found'' \<rparr>)"
proof -
  let ?up = "example_upstream (example_page [project_gamma] (Some False) None)"
  let ?sent = "[\<lparr> req_authorization = ''Bearer token'', req_after = None \<rparr>,
                \<lparr> req_authorization = ''Bearer token'', req_after = Some ''c1'' \<rparr>]"
  have h1: "replace ''Bearer token'' ''Bearer '' [] \<noteq> []" by simp
  have h2: "''api.example'' \<noteq> []" and h2': "''nope.example'' \<noteq> []" by simp_all
  have h3: "getRailwayServiceInfo ?up (replace ''Bearer token'' ''Bearer '' []) =
              Some (?sent, Inr [record_web, record_api])"
    using example_traversal [of "''token''"] by simp
  have f: "staticUrl record_api = ''api.example''" "status record_api = ''FAILED''"
    "staticUrl record_web \<noteq> ''nope.example''" "staticUrl record_api \<noteq> ''nope.example''"
    "staticUrl record_web \<noteq> ''api.example''" "serviceName record_api = ''api''"
    by (simp_all add: record_web_def record_api_def)
  from lookup_by_static_url [OF h1 h2 h3] f
  have a: "service_status ?up (Some ''Bearer token'') (Some ''api.example'') =
             Some (?sent, \<lparr> code = 200, body = ServiceStatusJson ''api'' ''FAILED'' \<rparr>)"
    by auto
  from lookup_by_static_url [OF h1 h2' h3] f
  have b: "service_status ?up (Some ''Bearer token'') (Some ''nope.example'') =
             Some (?sent, \<lparr> code = 404,
                            body = ErrorJson ''Not Found: Service with provided staticUrl not found'' \<rparr>)"
    by auto
  from h1 h2 h2' h3 f a b show ?thesis by blast
qed

text \<open>
  C9. When the (project, service) combinations of the pages a traversal fetched are
  pairwise distinct, the list it returns has at most one record for each (project,
  service) pair.
\<close>

theorem one_record_per_service:
  assumes "getRailwayServiceInfo upstream apiToken = Some (sent, Inr rs)"
    and "distinct (concat (map (\<lambda>i. outcome_pairs (upstream i)) [0..<length sent]))"
  shows "distinct (map record_pair rs)
         \<and> subseq (map record_pair rs) (concat (map (\<lambda>i. outcome_pairs (upstream i)) [0..<length sent]))"
proof -
  have sub: "subseq (map record_pair rs)
               (concat (map (\<lambda>i. outcome_pairs (upstream i)) [0..<length sent]))"
    unfolding traversal_records [OF assms(1)] by (rule subseq_concat_records)
  from subseq_distinct [OF sub assms(2)] sub show ?thesis by simp
qed

theorem one_record_per_service_witness:
  "getRailwayServiceInfo (example_upstream (example_page [project_gamma] (Some False) None)) ''token'' =
     Some ([\<lparr> req_authorization = ''Bearer token'', req_after = None \<rparr>,
            \<lparr> req_authorization = ''Bearer token'', req_after = Some ''c1'' \<rparr>],
           Inr [record_web, record_api])
   \<and> concat (map (\<lambda>i. outcome_pairs (example_upstream (example_page [project_gamma] (Some False) None) i))
               [0..<2])
       = [(''p1'', ''s1''), (''p1'', ''s2''), (''p1'', ''s3''), (''p3'', ''s4'')]
   \<and> distinct [(''p1'', ''s1''), (''p1'', ''s2''), (''p1'', ''s3''), (''p3'', ''s4'')]
   \<and> distinct (map record_pair [record_web, record_api])"
proof -
  let ?up = "example_upstream (example_page [project_gamma] (Some False) None)"
  let ?sent = "[\<lparr> req_authorization = ''Bearer token'', req_after = None \<rparr>,
                \<lparr> req_authorization = ''Bearer token'', req_after = Some ''c1'' \<rparr>]"
  have h1: "getRailwayServiceInfo ?up ''token'' = Some (?sent, Inr [record_web, record_api])"
    using example_traversal [of "''token''"] by simp
  have p: "concat (map (\<lambda>i. outcome_pairs (?up i)) [0..<2])
             = [(''p1'', ''s1''), (''p1'', ''s2''), (''p1'', ''s3''), (''p3'', ''s4'')]"
    by code_simp
  have d: "distinct [(''p1'', ''s1''), (''p1'', ''s2''), (''p1'', ''s3''), (''p3'', ''s4'')]"
    by simp
  have h2: "distinct (concat (map (\<lambda>i. outcome_pairs (?up i)) [0..<length ?sent]))"
  proof -
    have "length ?sent = 2" by simp
    with p d show ?thesis by (simp only:)
  qed
  from one_record_per_service [OF h1 h2] h1 p d show ?thesis by blast
qed

text \<open>
  C8, amended. When an upstream call succeeds at the transport level and its decoded
  response carries \<^verbatim>\<open>errors\<close>, the traversal aborts with the error
  \<^verbatim>\<open>GraphQL errors: \<close> followed by the serialised payload, every field of it; provided
  that serialised payload does not itself contain the text \<^verbatim>\<open>GraphQL request failed\<close>,
  both endpoints answer 500 with \<^verbatim>\<open>{"error":"Internal Server Error"}\<close>. As stated,
  without the proviso, the claim fails: an upstream error that has the text
  \<^verbatim>\<open>GraphQL request failed\<close> as its message, or anywhere else in it (in its
  \<^verbatim>\<open>extensions\<close>, say), is answered 502, as a transport failure is.
\<close>

theorem upstream_errors_internal_error:
  assumes "\<forall>i<k. continuing (upstream i)" and "upstream k = Resolved response"
    and "ok response" and "resp_json response = Inr d" and "errors d = Some es"
    and "\<not> includes_str (JSON_stringify es) ''GraphQL request failed''"
    and "replace h ''Bearer '' [] \<noteq> []" and "url \<noteq> []"
  shows "\<exists>sent. length sent = Suc k
           \<and> getRailwayServiceInfo upstream (replace h ''Bearer '' []) =
               Some (sent, Inl (Error (''GraphQL errors: '' @ JSON_stringify es)))
           \<and> services_status upstream (Some h) =
               Some (sent, \<lparr> code = 500, body = ErrorJson ''Internal Server Error'' \<rparr>)
           \<and> service_status upstream (Some h) (Some url) =
               Some (sent, \<lparr> code = 500, body = ErrorJson ''Internal Server Error'' \<rparr>)"
proof -
  let ?e = "Error (''GraphQL errors: '' @ JSON_stringify es)"
  have body: "\<And>st. loop_body (upstream k) st = Inl ?e"
    using assms(2) loop_body_errors [OF assms(3,4,5)] by simp
  from traversal_throw [OF assms(1) body] obtain sent where
    run: "getRailwayServiceInfo upstream (replace h ''Bearer '' []) = Some (sent, Inl ?e)"
    and len: "length sent = Suc k"
    by blast
  have reply: "catch_reply ?e = \<lparr> code = 500, body = ErrorJson ''Internal Server Error'' \<rparr>"
    unfolding catch_reply_def message.simps includes_errors_prefix
    using assms(6) by (simp only: simp_thms if_False c_json_def option.case)
  from services_status_error [OF assms(7) run] service_status_error [OF assms(7,8) run]
  have "services_status upstream (Some h) =
          Some (sent, \<lparr> code = 500, body = ErrorJson ''Internal Server Error'' \<rparr>)"
    and "service_status upstream (Some h) (Some url) =
          Some (sent, \<lparr> code = 500, body = ErrorJson ''Internal Server Error'' \<rparr>)"
    unfolding reply by blast+
  with len run show ?thesis by blast
qed


theorem upstream_errors_internal_error_witness:
  "continuing (example_upstream (Resolved (example_errors (payload_extensions ''Not Authorized'' ''UNAUTHENTICATED''))) 0)
   \<and> example_upstream (Resolved (example_errors (payload_extensions ''Not Authorized'' ''UNAUTHENTICATED''))) 1
       = Resolved (example_errors (payload_extensions ''Not Authorized'' ''UNAUTHENTICATED''))
   \<and> ok (example_errors (payload_extensions ''Not Authorized'' ''UNAUTHENTICATED''))
   \<and> resp_json (example_errors (payload_extensions ''Not Authorized'' ''UNAUTHENTICATED''))
       = Inr \<lparr> data = None, errors = Some (payload_extensions ''Not Authorized'' ''UNAUTHENTICATED'') \<rparr>
   \<and> JSON_stringify (payload_extensions ''Not Authorized'' ''UNAUTHENTICATED'')
       = ''[{'' @ quote ''message'' @ '':'' @ quote ''Not Authorized'' @ '','' @
         quote ''locations'' @ '':null,'' @
         quote ''path'' @ '':['' @ quote ''projects'' @ '',0],'' @
         quote ''extensions'' @ '':{'' @ quote ''code'' @ '':'' @ quote ''UNAUTHENTICATED'' @ ''}}]''
   \<and> \<not> includes_str (JSON_stringify (payload_extensions ''Not Authorized'' ''UNAUTHENTICATED''))
           ''GraphQL request failed''
   \<and> replace ''Bearer token'' ''Bearer '' [] \<noteq> [] \<and> ''web.example'' \<noteq> []
   \<and> (\<exists>sent. length sent = Suc 1
         \<and> services_status (example_upstream (Resolved (example_errors (payload_extensions ''Not Authorized'' ''UNAUTHENTICATED''))))
               (Some ''Bearer token'') =
             Some (sent, \<lparr> code = 500, body = ErrorJson ''Internal Server Error'' \<rparr>)
         \<and> service_status (example_upstream (Resolved (example_errors (payload_extensions ''Not Authorized'' ''UNAUTHENTICATED''))))
               (Some ''Bearer token'') (Some ''web.example'') =
             Some (sent, \<lparr> code = 500, body = ErrorJson ''Internal Server Error'' \<rparr>))"
proof -
  let ?es = "payload_extensions ''Not Authorized'' ''UNAUTHENTICATED''"
  let ?up = "example_upstream (Resolved (example_errors ?es))"
  let ?d = "\<lparr> data = None, errors = Some ?es \<rparr>"
  have h0: "continuing (?up 0)" by (simp add: page_defs example_defs)
  then have h1: "\<forall>i<1. continuing (?up i)" by simp
  have h2: "?up 1 = Resolved (example_errors ?es)" by (simp add: example_upstream_def)
  have h3: "ok (example_errors ?es)" by (simp add: ok_def example_errors_def)
  have h4: "resp_json (example_errors ?es) = Inr ?d" by (simp add: example_errors_def)
  have h5: "errors ?d = Some ?es" by simp
  have s: "JSON_stringify ?es
       = ''[{'' @ quote ''message'' @ '':'' @ quote ''Not Authorized'' @ '','' @
         quote ''locations'' @ '':null,'' @
         quote ''path'' @ '':['' @ quote ''projects'' @ '',0],'' @
         quote ''extensions'' @ '':{'' @ quote ''code'' @ '':'' @ quote ''UNAUTHENTICATED'' @ ''}}]''"
    by code_simp
  have h6: "\<not> includes_str (JSON_stringify ?es) ''GraphQL request failed''"
    by code_simp
  have h7: "replace ''Bearer token'' ''Bearer '' [] \<noteq> []" by simp
  have h8: "''web.example'' \<noteq> []" by simp
  from upstream_errors_internal_error [OF h1 h2 h3 h4 h5 h6 h7 h8] h0 h2 h3 h4 s h6 h7 h8
  show ?thesis by blast
qed

theorem upstream_errors_internal_error_counterexample:
  "ok (example_errors (payload_message ''GraphQL request failed''))
   \<and> resp_json (example_errors (payload_message ''GraphQL request failed''))
       = Inr \<lparr> data = None,
                errors = Some [JObject [(''message'', JString ''GraphQL request failed'')]] \<rparr>
   \<and> services_status (example_always (Resolved (example_errors (payload_message ''GraphQL request failed''))))
         (Some ''Bearer token'') =
       Some ([\<lparr> req_authorization = ''Bearer token'', req_after = None \<rparr>],
             \<lparr> code = 502, body = ErrorJson ''Failed to fetch from Railway API'' \<rparr>)
   \<and> resp_json (example_errors (payload_extensions ''Not Authorized'' ''GraphQL request failed''))
       = Inr \<lparr> data = None,
                errors = Some [JObject [(''message'', JString ''Not Authorized''), (''locations'', JNull),
                                        (''path'', JArray [JString ''projects'', JNumber ''0'']),
                                        (''extensions'',
                                          JObject [(''code'', JString ''GraphQL request failed'')])]] \<rparr>
   \<and> services_status
         (example_always (Resolved (example_errors (payload_extensions ''Not Authorized'' ''GraphQL request failed''))))
         (Some ''Bearer token'') =
       Some ([\<lparr> req_authorization = ''Bearer token'', req_after = None \<rparr>],
             \<lparr> code = 502, body = ErrorJson ''Failed to fetch from Railway API'' \<rparr>)"
  by code_simp

text \<open>
  C4, amended. On a non-empty page the two fields of the pagination metadata are taken
  each on its own, and an absent one is never a failure. The has-more flag becomes the
  \<^verbatim>\<open>hasNextPage\<close> of the metadata, false when the metadata lacks it; the cursor becomes
  its \<^verbatim>\<open>endCursor\<close>, null when the metadata lacks it. So a page whose metadata lacks
  \<^verbatim>\<open>hasNextPage\<close> ends the traversal, which returns after it; a page whose metadata
  lacks only \<^verbatim>\<open>endCursor\<close> and says \<^verbatim>\<open>hasNextPage: true\<close> keeps the flag true, and the
  traversal goes on with another request. The claim as stated fails on such a page.
\<close>

theorem absent_page_info_defaults:
  assumes "fetched_page outcome = Some d" and "page_projects d \<noteq> []"
  shows "\<exists>st'. loop_body outcome st = Inr st'
           \<and> hasNextPage st' = (case data_hasNextPage d of None \<Rightarrow> False | Some b \<Rightarrow> b)
           \<and> afterCursor st' = (case data_endCursor d of None \<Rightarrow> None | Some c \<Rightarrow> Some c)
           \<and> (data_hasNextPage d = None \<longrightarrow> \<not> hasNextPage st')
           \<and> (data_endCursor d = None \<longrightarrow> afterCursor st' = None)
           \<and> (data_hasNextPage d = Some True \<longrightarrow> hasNextPage st')
           \<and> (hasNextPage st \<longrightarrow> upstream (length sent) = outcome \<longrightarrow>
                fetch_loop upstream apiToken sent st =
                  (if hasNextPage st'
                   then fetch_loop upstream apiToken
                          (sent @ [\<lparr> req_authorization = ''Bearer '' @ apiToken,
                                      req_after = afterCursor st \<rparr>]) st'
                   else Some (sent @ [\<lparr> req_authorization = ''Bearer '' @ apiToken,
                                         req_after = afterCursor st \<rparr>],
                              Inr (allServices st'))))"
proof -
  let ?st' = "\<lparr> allServices = allServices st @ page_records (page_projects d),
                 hasNextPage = (data_hasNextPage d = Some True),
                 afterCursor = data_endCursor d \<rparr>"
  let ?sent' = "sent @ [\<lparr> req_authorization = ''Bearer '' @ apiToken, req_after = afterCursor st \<rparr>]"
  have body: "loop_body outcome st = Inr ?st'"
    using loop_body_page [OF assms(1)] assms(2) by simp
  have flag: "hasNextPage ?st' = (case data_hasNextPage d of None \<Rightarrow> False | Some b \<Rightarrow> b)"
    by (auto split: option.splits)
  have cursor: "afterCursor ?st' = (case data_endCursor d of None \<Rightarrow> None | Some c \<Rightarrow> Some c)"
    by (simp split: option.splits)
  have run: "fetch_loop upstream apiToken sent st =
               (if hasNextPage ?st' then fetch_loop upstream apiToken ?sent' ?st'
                else Some (?sent', Inr (allServices ?st')))"
    if more: "hasNextPage st" and up: "upstream (length sent) = outcome"
  proof (cases "hasNextPage ?st'")
    case True
    have "fetch_loop upstream apiToken sent st = fetch_loop upstream apiToken ?sent' ?st'"
      using more up body by (subst fetch_loop.simps) simp
    with True show ?thesis by (simp only: if_True)
  next
    case False
    have b: "loop_body (upstream (length sent)) st = Inr ?st'" using up body by simp
    from fetch_loop_last [where upstream = upstream and sent = sent and st = st, OF more b False]
    have "fetch_loop upstream apiToken sent st = Some (?sent', Inr (allServices ?st'))" .
    with False show ?thesis by (simp only: if_False)
  qed
  show ?thesis
  proof (intro exI [of _ ?st'] conjI impI)
    show "loop_body outcome st = Inr ?st'" by (rule body)
    show "hasNextPage ?st' = (case data_hasNextPage d of None \<Rightarrow> False | Some b \<Rightarrow> b)" by (rule flag)
    show "afterCursor ?st' = (case data_endCursor d of None \<Rightarrow> None | Some c \<Rightarrow> Some c)" by (rule cursor)
    show "\<not> hasNextPage ?st'" if "data_hasNextPage d = None" using that by simp
    show "afterCursor ?st' = None" if "data_endCursor d = None" using that by simp
    show "hasNextPage ?st'" if "data_hasNextPage d = Some True" using that by simp
    show "fetch_loop upstream apiToken sent st =
            (if hasNextPage ?st' then fetch_loop upstream apiToken ?sent' ?st'
             else Some (?sent', Inr (allServices ?st')))"
      if "hasNextPage st" and "upstream (length sent) = outcome"
      using run [OF that] .
  qed
qed

theorem absent_page_info_defaults_witness:
  "fetched_page (example_page [project_alpha] None None) = Some (example_response [project_alpha] None None)
   \<and> page_projects (example_response [project_alpha] None None) \<noteq> []
   \<and> data_hasNextPage (example_response [project_alpha] None None) = None
   \<and> data_endCursor (example_response [project_alpha] None None) = None
   \<and> hasNextPage example_state
   \<and> (\<exists>st'. loop_body (example_page [project_alpha] None None) example_state = Inr st'
         \<and> \<not> hasNextPage st' \<and> afterCursor st' = None
         \<and> fetch_loop (example_always (example_page [project_alpha] None None)) ''token'' [] example_state =
               Some ([\<lparr> req_authorization = ''Bearer token'', req_after = None \<rparr>],
                     Inr (allServices st')))
   \<and> fetched_page (example_page [project_alpha] (Some True) None)
       = Some (example_response [project_alpha] (Some True) None)
   \<and> data_hasNextPage (example_response [project_alpha] (Some True) None) = Some True
   \<and> data_endCursor (example_response [project_alpha] (Some True) None) = None
   \<and> (\<exists>st'. loop_body (example_page [project_alpha] (Some True) None) example_state = Inr st'
         \<and> hasNextPage st' \<and> afterCursor st' = None
         \<and> fetch_loop (example_always (example_page [project_alpha] (Some True) None)) ''token'' []
               example_state =
             fetch_loop (example_always (example_page [project_alpha] (Some True) None)) ''token''
               [\<lparr> req_authorization = ''Bearer token'', req_after = None \<rparr>] st')"
proof -
  let ?o = "example_page [project_alpha] None None"
  let ?d = "example_response [project_alpha] None None"
  let ?o2 = "example_page [project_alpha] (Some True) None"
  let ?d2 = "example_response [project_alpha] (Some True) None"
  have h1: "fetched_page ?o = Some ?d" by (simp add: page_defs example_defs)
  have h2: "page_projects ?d \<noteq> []" by (simp add: page_defs example_defs)
  have h3: "data_hasNextPage ?d = None" by (simp add: page_defs example_defs)
  have h4: "data_endCursor ?d = None" by (simp add: page_defs example_defs)
  have h5: "hasNextPage example_state" by (simp add: example_state_def)
  have h6: "example_always ?o (length ([] :: Request list)) = ?o" by (simp add: example_always_def)
  have h7: "afterCursor example_state = None" by (simp add: example_state_def)
  have g1: "fetched_page ?o2 = Some ?d2" by (simp add: page_defs example_defs)
  have g2: "page_projects ?d2 \<noteq> []" by (simp add: page_defs example_defs)
  have g3: "data_hasNextPage ?d2 = Some True" by (simp add: page_defs example_defs)
  have g4: "data_endCursor ?d2 = None" by (simp add: page_defs example_defs)
  have g6: "example_always ?o2 (length ([] :: Request list)) = ?o2" by (simp add: example_always_def)
  from absent_page_info_defaults [OF h1 h2, of example_state "example_always ?o" "[]" "''token''"]
    h3 h4 h5 h6 h7
  have a: "\<exists>st'. loop_body ?o example_state = Inr st'
         \<and> \<not> hasNextPage st' \<and> afterCursor st' = None
         \<and> fetch_loop (example_always ?o) ''token'' [] example_state =
               Some ([\<lparr> req_authorization = ''Bearer token'', req_after = None \<rparr>],
                     Inr (allServices st'))"
    by auto
  from absent_page_info_defaults [OF g1 g2, of example_state "example_always ?o2" "[]" "''token''"]
    g3 g4 h5 g6 h7
  have b: "\<exists>st'. loop_body ?o2 example_state = Inr st'
         \<and> hasNextPage st' \<and> afterCursor st' = None
         \<and> fetch_loop (example_always ?o2) ''token'' [] example_state =
             fetch_loop (example_always ?o2) ''token''
               [\<lparr> req_authorization = ''Bearer token'', req_after = None \<rparr>] st'"
    by auto
  from h1 h2 h3 h4 h5 a g1 g3 g4 b show ?thesis by blast
qed

theorem absent_page_info_defaults_counterexample:
  "fetched_page (example_page [project_beta] (Some True) None)
     = Some (example_response [project_beta] (Some True) None)
   \<and> page_projects (example_response [project_beta] (Some True) None) \<noteq> []
   \<and> data_endCursor (example_response [project_beta] (Some True) None) = None
   \<and> loop_body (example_page [project_beta] (Some True) None) example_state
       = Inr \<lparr> allServices = [], hasNextPage = True, afterCursor = None \<rparr>
   \<and> getRailwayServiceInfo (example_always (example_page [project_beta] (Some True) None)) ''token''
       = None"
proof -
  have "\<forall>i. continuing (example_always (example_page [project_beta] (Some True) None) i)"
    by (simp add: page_defs example_defs)
  from traversal_diverges [OF this]
  have "getRailwayServiceInfo (example_always (example_page [project_beta] (Some True) None)) ''token'' = None" .
  then show ?thesis
    by (simp add: loop_body_def page_defs example_defs)
qed

text \<open>
  C7, amended. A request to either protected endpoint whose \<^verbatim>\<open>Authorization\<close> header is
  absent, or is empty once the first \<^verbatim>\<open>Bearer \<close> in its value is replaced by nothing, is
  answered 401 with the body \<^verbatim>\<open>{"error":"Unauthorized: API token is required"}\<close>, and no
  request is sent to the upstream. As stated, for every request that carries no bearer
  token, the claim fails: a header that carries something else, \<^verbatim>\<open>Basic abc\<close> say, is
  taken as the token, and the upstream is called with it.
\<close>

theorem missing_token_unauthorized:
  assumes "authorization = None \<or> (\<exists>h. authorization = Some h \<and> replace h ''Bearer '' [] = [])"
  shows "services_status upstream authorization =
           Some ([], \<lparr> code = 401, body = ErrorJson ''Unauthorized: API token is required'' \<rparr>)
         \<and> service_status upstream authorization staticUrl_param =
           Some ([], \<lparr> code = 401, body = ErrorJson ''Unauthorized: API token is required'' \<rparr>)"
  using assms by (auto simp: services_status_def service_status_def c_json_def)

theorem missing_token_unauthorized_witness:
  "replace [] ''Bearer '' [] = []
   \<and> services_status (example_upstream (example_page [project_gamma] (Some False) None)) None =
       Some ([], \<lparr> code = 401, body = ErrorJson ''Unauthorized: API token is required'' \<rparr>)
   \<and> service_status (example_upstream (example_page [project_gamma] (Some False) None)) None
         (Some ''web.example'') =
       Some ([], \<lparr> code = 401, body = ErrorJson ''Unauthorized: API token is required'' \<rparr>)
   \<and> services_status (example_upstream (example_page [project_gamma] (Some False) None)) (Some []) =
       Some ([], \<lparr> code = 401, body = ErrorJson ''Unauthorized: API token is required'' \<rparr>)
   \<and> service_status (example_upstream (example_page [project_gamma] (Some False) None)) (Some [])
         (Some ''web.example'') =
       Some ([], \<lparr> code = 401, body = ErrorJson ''Unauthorized: API token is required'' \<rparr>)"
proof -
  let ?up = "example_upstream (example_page [project_gamma] (Some False) None)"
  have e: "replace [] ''Bearer '' [] = []" by simp
  have h1: "(None :: string option) = None \<or> (\<exists>h. None = Some h \<and> replace h ''Bearer '' [] = [])"
    by simp
  have h2: "Some [] = None \<or> (\<exists>h. Some [] = Some h \<and> replace h ''Bearer '' [] = [])"
    using e by simp
  from missing_token_unauthorized [OF h1, of ?up "Some ''web.example''"]
    missing_token_unauthorized [OF h2, of ?up "Some ''web.example''"] e
  show ?thesis by simp
qed

theorem missing_token_unauthorized_counterexample:
  "replace ''Basic abc'' ''Bearer '' [] = ''Basic abc''
   \<and> services_status (example_upstream (example_page [project_gamma] (Some False) None))
         (Some ''Basic abc'') =
       Some ([\<lparr> req_authorization = ''Bearer Basic abc'', req_after = None \<rparr>,
              \<lparr> req_authorization = ''Bearer Basic abc'', req_after = Some ''c1'' \<rparr>],
             \<lparr> code = 200, body = ServicesJson [record_web, record_api] \<rparr>)"
proof -
  have t: "replace ''Basic abc'' ''Bearer '' [] = ''Basic abc''" by simp
  then have t': "replace ''Basic abc'' ''Bearer '' [] \<noteq> []" by simp
  have run: "getRailwayServiceInfo (example_upstream (example_page [project_gamma] (Some False) None))
               (replace ''Basic abc'' ''Bearer '' []) =
             Some ([\<lparr> req_authorization = ''Bearer Basic abc'', req_after = None \<rparr>,
                    \<lparr> req_authorization = ''Bearer Basic abc'', req_after = Some ''c1'' \<rparr>],
                   Inr [record_web, record_api])"
    using example_traversal [of "''Basic abc''"] by simp
  from services_status_ok [OF t' run] t show ?thesis by simp
qed



end
